theory Spec2Isabelle
  imports Main "HOL-Library.Word" "HOL-Library.Signed_Division" "HOL-Library.DAList"
begin

section \<open>Go values used by the collectors\<close>

text \<open>
  The collectors of \<^verbatim>\<open>collector/logs_query.go\<close> decode a JSON document, run pure
  extraction functions over the decoded value and send the results to a channel.
  A Go \<^verbatim>\<open>int\<close> field filled by the decoder is a 64-bit two's complement word
  (the exporter is built for 64-bit targets). Go's \<^verbatim>\<open>/\<close> truncates towards zero,
  and \<^verbatim>\<open>>\<close> on \<^verbatim>\<open>int\<close> compares signed values.
\<close>

type_synonym go_int = "64 word"

definition go_quo :: "go_int \<Rightarrow> go_int \<Rightarrow> go_int" where
  "go_quo a b = word_of_int (sint a sdiv sint b)"

definition go_gt :: "go_int \<Rightarrow> go_int \<Rightarrow> bool" where
  "go_gt a b = (sint b < sint a)"

text \<open>
  A Go \<^verbatim>\<open>map[string]V\<close> is a finite map with distinct keys: \<^typ>\<open>(string, 'v) alist\<close>.
  A \<^verbatim>\<open>range\<close> loop visits every entry once, in an order the runtime chooses; the
  order of the underlying list stands for that choice, so a statement about every
  \<^typ>\<open>(string, 'v) alist\<close> is a statement about every visiting order. The nil map
  and the empty map are both \<^term>\<open>DAList.empty\<close>. \<^verbatim>\<open>len(m)\<close> is the number of entries.
\<close>

type_synonym 'v go_map = "(string, 'v) alist"

definition go_range :: "'v go_map \<Rightarrow> (string \<times> 'v) list" where
  "go_range m = DAList.impl_of m"

definition go_len :: "'v go_map \<Rightarrow> int" where
  "go_len m = int (length (DAList.impl_of m))"

section \<open>The response schema\<close>

datatype Header = Header

record Task =
  Node :: string
  Id' :: go_int
  Type :: string
  Action :: string
  StartTimeInMillis :: go_int
  RunningTimeInNanos :: go_int
  Cancellable :: bool
  ParentTaskId :: string
  Headers :: "Header go_map"

record Node =
  Name :: string
  TransportAddress :: string
  Host :: string
  Ip :: string
  Roles :: "string list"
  Tasks :: "Task go_map"

record TasksResponse =
  Nodes :: "Node go_map"

section \<open>The extraction functions of the tasks collector\<close>

text \<open>
  Both functions keep a Go \<^verbatim>\<open>int\<close> counter and return \<^verbatim>\<open>float64(count)\<close>. The counter
  never exceeds the number of tasks held in memory, which is far below \<open>2 ^ 53\<close>, so
  neither the counter nor the conversion loses anything; the model returns the
  counter as an integer.
\<close>

definition total_Value :: "TasksResponse \<Rightarrow> int" where
  "total_Value tasks =
     fold (\<lambda>(_, node) count. count + go_len (Tasks node)) (go_range (Nodes tasks)) 0"

definition total_gt_1s_task :: "Task \<Rightarrow> int \<Rightarrow> int" where
  "total_gt_1s_task task count =
     (let ms = go_quo (RunningTimeInNanos task) 1000000
      in if go_gt ms 1000 then count + 1 else count)"

definition total_gt_1s_Value :: "TasksResponse \<Rightarrow> int" where
  "total_gt_1s_Value tasks =
     fold (\<lambda>(_, node) count.
             fold (\<lambda>(_, task) count. total_gt_1s_task task count) (go_range (Tasks node)) count)
       (go_range (Nodes tasks)) 0"

section \<open>The libraries the collectors call\<close>

text \<open>
  The Prometheus client, \<^verbatim>\<open>net/http\<close>, \<^verbatim>\<open>net/url\<close>, \<^verbatim>\<open>path\<close>, \<^verbatim>\<open>encoding/json\<close> and the
  go-kit logger are not part of this repository. Their values are modelled by the
  fields the collectors touch, and what they do to the outside is recorded as a
  list of events in the order the calls happen.
\<close>

record Desc =
  fqName :: string
  helpText :: string

datatype ValueType = CounterValue | GaugeValue | UntypedValue

text \<open>\<^verbatim>\<open>prometheus.BuildFQName\<close>: the non-empty parts joined by an underscore.\<close>

definition BuildFQName :: "string \<Rightarrow> string \<Rightarrow> string \<Rightarrow> string" where
  "BuildFQName namespace subsystem name =
     (if name = [] then []
      else if namespace \<noteq> [] \<and> subsystem \<noteq> [] then namespace @ ''_'' @ subsystem @ ''_'' @ name
      else if namespace \<noteq> [] then namespace @ ''_'' @ name
      else if subsystem \<noteq> [] then subsystem @ ''_'' @ name
      else name)"

definition NewDesc :: "string \<Rightarrow> string \<Rightarrow> Desc" where
  "NewDesc fq h = \<lparr>fqName = fq, helpText = h\<rparr>"

text \<open>
  A gauge holds a \<^verbatim>\<open>float64\<close> that the collectors only ever set to 0 or 1; a counter is
  only ever incremented by one.
\<close>

record Gauge =
  gaugeDesc :: Desc
  gaugeVal :: int

record Counter =
  counterDesc :: Desc
  counterVal :: nat

definition NewGauge :: "string \<Rightarrow> string \<Rightarrow> Gauge" where
  "NewGauge n h = \<lparr>gaugeDesc = NewDesc n h, gaugeVal = 0\<rparr>"

definition NewCounter :: "string \<Rightarrow> string \<Rightarrow> Counter" where
  "NewCounter n h = \<lparr>counterDesc = NewDesc n h, counterVal = 0\<rparr>"

definition Set_Gauge :: "Gauge \<Rightarrow> int \<Rightarrow> Gauge" where
  "Set_Gauge g v = g\<lparr>gaugeVal := v\<rparr>"

definition Inc :: "Counter \<Rightarrow> Counter" where
  "Inc c = c\<lparr>counterVal := counterVal c + 1\<rparr>"

text \<open>
  What travels over the \<^verbatim>\<open>chan<- prometheus.Metric\<close>: a constant metric made by
  \<^verbatim>\<open>MustNewConstMetric\<close>, or the collector's own gauge or counter, read as it stands
  when it is sent.
\<close>

datatype Metric =
    ConstMetric Desc ValueType int
  | GaugeMetric Gauge
  | CounterMetric Counter

fun Metric_Desc :: "Metric \<Rightarrow> Desc" where
  "Metric_Desc (ConstMetric d _ _) = d"
| "Metric_Desc (GaugeMetric g) = gaugeDesc g"
| "Metric_Desc (CounterMetric c) = counterDesc c"

type_synonym Logger = nat

record http_Client =
  Transport :: "nat option"
  CheckRedirect :: "nat option"
  Jar :: "nat option"
  Timeout :: int

text \<open>\<^verbatim>\<open>&http.Client{}\<close>: every field at its zero value.\<close>

definition zero_http_Client :: http_Client where
  "zero_http_Client = \<lparr>Transport = None, CheckRedirect = None, Jar = None, Timeout = 0\<rparr>"

record URL =
  Scheme :: string
  Host :: string
  Path :: string

record Request =
  Method :: string
  ReqURL :: string
  ReqHeader :: "(string \<times> string) list"
  ReqBody :: "string option"

datatype error =
    TransportError string
  | FailedToGet URL error
  | HTTPRequestFailed int
  | DecodeError string
  | CloseError string

text \<open>
  A response: its status, the bytes of its body, and what \<^verbatim>\<open>Body.Close()\<close> will return.
\<close>

record Response =
  StatusCode :: int
  Body :: string
  BodyClose_result :: "error option"

definition StatusOK :: int where
  "StatusOK = 200"

text \<open>
  The effects of a call, in the order they happen: \<^verbatim>\<open>totalScrapes.Inc()\<close>,
  \<^verbatim>\<open>jsonParseFailures.Inc()\<close>, \<^verbatim>\<open>up.Set(v)\<close>, a request sent through a client, the
  closing of a response body, a warning given to a logger, a call of a metric's
  \<^verbatim>\<open>Value\<close> function, and a metric sent on the channel.
\<close>

datatype event =
    Inc_totalScrapes
  | Inc_jsonParseFailures
  | Set_up int
  | HttpDo http_Client Request
  | BodyClose
  | LogWarn Logger string error
  | CallValue Desc
  | Send Metric

text \<open>
  Modelled from the spec: the declaration of \<^verbatim>\<open>NetworkDiscoveryErrorQueryResponse\<close> is
  missing from the sources; the spec gives it as the document \<^verbatim>\<open>{"hits":{"total": <int>}}\<close>.
\<close>

record Hits_t =
  Total :: go_int

record NetworkDiscoveryErrorQueryResponse =
  Hits :: Hits_t

text \<open>
  The outside of one \<^verbatim>\<open>Collect\<close> call: the answer of the network to a request sent
  through a client, and the library functions \<^verbatim>\<open>path.Join\<close> (of two elements),
  \<^verbatim>\<open>(*url.URL).String\<close> and \<^verbatim>\<open>json.NewDecoder(body).Decode\<close> at the two response types.
\<close>

record world =
  http_Do :: "http_Client \<Rightarrow> Request \<Rightarrow> error + Response"
  path_Join :: "string \<Rightarrow> string \<Rightarrow> string"
  url_String :: "URL \<Rightarrow> string"
  Decode_Tasks :: "string \<Rightarrow> error + TasksResponse"
  Decode_Query :: "string \<Rightarrow> error + NetworkDiscoveryErrorQueryResponse"

text \<open>\<^verbatim>\<open>(*http.Client).Get\<close>: a GET without header or body, sent through the client.\<close>

definition http_Get :: "world \<Rightarrow> http_Client \<Rightarrow> string \<Rightarrow> event list \<times> (error + Response)" where
  "http_Get w cl target =
     (let req = \<lparr>Method = ''GET'', ReqURL = target, ReqHeader = [], ReqBody = None\<rparr>
      in ([HttpDo cl req], http_Do w cl req))"

text \<open>The deferred closure of both \<^verbatim>\<open>getAndParseURL\<close>: close the body, warn when that fails.\<close>

definition close_Body :: "Logger \<Rightarrow> Response \<Rightarrow> event list" where
  "close_Body lg res =
     BodyClose # (case BodyClose_result res of
                    None \<Rightarrow> []
                  | Some err \<Rightarrow> [LogWarn lg ''failed to close http.Client'' err])"

section \<open>The error-query collector\<close>

record networkDiscoveryErrorQueryMetric =
  Type :: ValueType
  Desc :: Desc
  Value :: "NetworkDiscoveryErrorQueryResponse \<Rightarrow> int"

record LogsQueries =
  logger :: Logger
  client :: http_Client
  url :: URL
  up :: Gauge
  totalScrapes :: Counter
  jsonParseFailures :: Counter
  networkDiscoveryErrorQueryMetrics :: "networkDiscoveryErrorQueryMetric list"

text \<open>The package constant \<^verbatim>\<open>namespace\<close> is declared outside the sources: a parameter.\<close>

definition NewLogsQueries :: "string \<Rightarrow> Logger \<Rightarrow> http_Client \<Rightarrow> URL \<Rightarrow> LogsQueries" where
  "NewLogsQueries namespace lg cl u =
     (let subsystem = ''queries'' in
      \<lparr>logger = lg, client = cl, url = u,
       up = NewGauge (BuildFQName namespace subsystem ''up'')
              ''Was the last scrape of the ElasticSearch tasks endpoint successful.'',
       totalScrapes = NewCounter (BuildFQName namespace subsystem ''total_scrapes'')
              ''Current total ElasticSearch tasks scrapes.'',
       jsonParseFailures = NewCounter (BuildFQName namespace subsystem ''json_parse_failures'')
              ''Number of errors while parsing JSON.'',
       networkDiscoveryErrorQueryMetrics =
         [\<lparr>Type = GaugeValue,
           Desc = NewDesc (BuildFQName namespace subsystem ''total_network_discovery_error'')
                    ''Number of total network discovery'',
           Value = (\<lambda>response. sint (Total (Hits response)))\<rparr>]\<rparr>)"

text \<open>
  The query document of \<^verbatim>\<open>getNetworkDiscoveryReq\<close>, a raw string literal: each line is
  its leading tabs, its text and a line feed; the closing brace has no line feed.
\<close>

definition json_line :: "nat \<Rightarrow> string \<Rightarrow> string" where
  "json_line n l = replicate n (CHR 0x09) @ l @ [CHR 0x0A]"

definition jsonStr :: string where
  \<open>jsonStr =
     concat
      [json_line 0 ''{'',
       json_line 1 ''"query": {'',
       json_line 2 ''"bool": {'',
       json_line 3 ''"must": [{'',
       json_line 4 ''"match_all": {}'',
       json_line 3 ''}, {'',
       json_line 4 ''"bool": {'',
       json_line 5 ''"should": [{'',
       json_line 6 ''"match_phrase": {'',
       json_line 7 ''"message": "send message failed"'',
       json_line 6 ''}'',
       json_line 5 ''}, {'',
       json_line 6 ''"match_phrase": {'',
       json_line 7 ''"message": "NodeNotConnectedException"'',
       json_line 6 ''}'',
       json_line 5 ''}]'',
       json_line 4 ''}'',
       json_line 3 ''}, {'',
       json_line 4 ''"range": {'',
       json_line 5 ''"@timestamp": {'',
       json_line 6 ''"gt" :  "now-5m",'',
       json_line 6 ''"format": "epoch_millis"'',
       json_line 5 ''}'',
       json_line 4 ''}'',
       json_line 3 ''}],'',
       json_line 3 ''"must_not": [{'',
       json_line 4 ''"match_phrase": {'',
       json_line 5 ''"message": {'',
       json_line 6 ''"query": "0.0.0.0"'',
       json_line 5 ''}'',
       json_line 4 ''}'',
       json_line 3 ''}]'',
       json_line 2 ''}'',
       json_line 1 ''}''] @ ''}''\<close>

text \<open>
  \<^verbatim>\<open>getNetworkDiscoveryReq\<close> builds the POST request and sends it through a client it
  makes itself. The error of \<^verbatim>\<open>http.NewRequest\<close> is dropped by the source; the method
  is valid and the URL comes from a parsed \<^verbatim>\<open>url.URL\<close>, so the request is always built.
\<close>

definition LogsQueries_getNetworkDiscoveryReq ::
  "world \<Rightarrow> LogsQueries \<Rightarrow> URL \<Rightarrow> event list \<times> (error + Response)" where
  "LogsQueries_getNetworkDiscoveryReq w s u =
     (let req = \<lparr>Method = ''POST'', ReqURL = url_String w u, ReqHeader = [],
                 ReqBody = Some jsonStr\<rparr>;
          req = req\<lparr>ReqHeader := [(''Content-Type'', ''application/json'')]\<rparr>;
          cl = zero_http_Client
      in ([HttpDo cl req], http_Do w cl req))"

text \<open>
  \<^verbatim>\<open>getAndParseURL\<close> returns an error and fills \<^verbatim>\<open>data\<close>; the model returns the error or
  the decoded value (the callers drop the value when there is an error). The
  deferred closure runs after the result is fixed: it assigns the local \<^verbatim>\<open>err\<close>, which
  is not the (unnamed) result.
\<close>

definition LogsQueries_getAndParseURL ::
  "world \<Rightarrow> LogsQueries \<Rightarrow> URL \<Rightarrow>
     LogsQueries \<times> event list \<times> (error + NetworkDiscoveryErrorQueryResponse)" where
  "LogsQueries_getAndParseURL w s u =
     (case LogsQueries_getNetworkDiscoveryReq w s u of
        (tr, Inl err) \<Rightarrow> (s, tr, Inl (FailedToGet u err))
      | (tr, Inr res) \<Rightarrow>
          if StatusCode res \<noteq> StatusOK
          then (s, tr @ close_Body (logger s) res, Inl (HTTPRequestFailed (StatusCode res)))
          else (case Decode_Query w (Body res) of
                  Inl err \<Rightarrow>
                    (s\<lparr>jsonParseFailures := Inc (jsonParseFailures s)\<rparr>,
                     tr @ [Inc_jsonParseFailures]
                        @ close_Body (logger s) res,
                     Inl err)
                | Inr data \<Rightarrow> (s, tr @ close_Body (logger s) res, Inr data)))"

definition LogsQueries_fetchAndDecodeTasks ::
  "world \<Rightarrow> LogsQueries \<Rightarrow>
     LogsQueries \<times> event list \<times> (error + NetworkDiscoveryErrorQueryResponse)" where
  "LogsQueries_fetchAndDecodeTasks w s =
     (let u = url s;
          u = u\<lparr>Path := path_Join w (Path u) ''/elasticsearch-*/_search''\<rparr>
      in LogsQueries_getAndParseURL w s u)"

definition LogsQueries_Describe :: "LogsQueries \<Rightarrow> Desc list" where
  "LogsQueries_Describe s =
     map Desc (networkDiscoveryErrorQueryMetrics s)
     @ [gaugeDesc (up s), counterDesc (totalScrapes s), counterDesc (jsonParseFailures s)]"

text \<open>The deferred closure of \<^verbatim>\<open>Collect\<close>: the three bookkeeping metrics.\<close>

definition LogsQueries_deferred :: "LogsQueries \<Rightarrow> event list" where
  "LogsQueries_deferred s =
     [Send (GaugeMetric (up s)),
      Send (CounterMetric (totalScrapes s)),
      Send (CounterMetric (jsonParseFailures s))]"

definition LogsQueries_Collect :: "world \<Rightarrow> LogsQueries \<Rightarrow> LogsQueries \<times> event list" where
  "LogsQueries_Collect w s =
     (let s1 = s\<lparr>totalScrapes := Inc (totalScrapes s)\<rparr>;
          tr1 = [Inc_totalScrapes]
      in case LogsQueries_fetchAndDecodeTasks w s1 of
           (s2, tr2, Inl err) \<Rightarrow>
             (let s3 = s2\<lparr>up := Set_Gauge (up s2) 0\<rparr>
              in (s3, tr1 @ tr2
                      @ [Set_up 0,
                         LogWarn (logger s3) ''failed to fetch and decode tasks'' err]
                      @ LogsQueries_deferred s3))
         | (s2, tr2, Inr networkDiscoveryResp) \<Rightarrow>
             (let s3 = s2\<lparr>up := Set_Gauge (up s2) 1\<rparr>
              in (s3, tr1 @ tr2
                      @ [Set_up 1]
                      @ concat (map (\<lambda>metric.
                                  [CallValue (Desc metric),
                                   Send (ConstMetric (Desc metric) (Type metric)
                                          (Value metric networkDiscoveryResp))])
                                (networkDiscoveryErrorQueryMetrics s3))
                      @ LogsQueries_deferred s3)))"

section \<open>The tasks collector\<close>

record taskMetric =
  Type :: ValueType
  Desc :: Desc
  Value :: "TasksResponse \<Rightarrow> int"

record Tasks =
  logger :: Logger
  client :: http_Client
  url :: URL
  up :: Gauge
  totalScrapes :: Counter
  jsonParseFailures :: Counter
  taskMetrics :: "taskMetric list"

definition NewTasks :: "string \<Rightarrow> Logger \<Rightarrow> http_Client \<Rightarrow> URL \<Rightarrow> Tasks" where
  "NewTasks namespace lg cl u =
     (let subsystem = ''tasks'' in
      \<lparr>logger = lg, client = cl, url = u,
       up = NewGauge (BuildFQName namespace subsystem ''up'')
              ''Was the last scrape of the ElasticSearch tasks endpoint successful.'',
       totalScrapes = NewCounter (BuildFQName namespace subsystem ''total_scrapes'')
              ''Current total ElasticSearch tasks scrapes.'',
       jsonParseFailures = NewCounter (BuildFQName namespace subsystem ''json_parse_failures'')
              ''Number of errors while parsing JSON.'',
       taskMetrics =
         [\<lparr>Type = GaugeValue,
           Desc = NewDesc (BuildFQName namespace subsystem ''total'') ''Number of tasks'',
           Value = total_Value\<rparr>,
          \<lparr>Type = GaugeValue,
           Desc = NewDesc (BuildFQName namespace subsystem ''total_gt_1s'')
                    ''Number of tasks greater then 1 second'',
           Value = total_gt_1s_Value\<rparr>]\<rparr>)"

definition Tasks_Describe :: "Tasks \<Rightarrow> Desc list" where
  "Tasks_Describe s =
     map Desc (taskMetrics s)
     @ [gaugeDesc (up s), counterDesc (totalScrapes s), counterDesc (jsonParseFailures s)]"

definition Tasks_getAndParseURL ::
  "world \<Rightarrow> Tasks \<Rightarrow> URL \<Rightarrow> Tasks \<times> event list \<times> (error + TasksResponse)" where
  "Tasks_getAndParseURL w s u =
     (case http_Get w (client s) (url_String w u) of
        (tr, Inl err) \<Rightarrow> (s, tr, Inl (FailedToGet u err))
      | (tr, Inr res) \<Rightarrow>
          if StatusCode res \<noteq> StatusOK
          then (s, tr @ close_Body (logger s) res, Inl (HTTPRequestFailed (StatusCode res)))
          else (case Decode_Tasks w (Body res) of
                  Inl err \<Rightarrow>
                    (s\<lparr>jsonParseFailures := Inc (jsonParseFailures s)\<rparr>,
                     tr @ [Inc_jsonParseFailures]
                        @ close_Body (logger s) res,
                     Inl err)
                | Inr data \<Rightarrow> (s, tr @ close_Body (logger s) res, Inr data)))"

definition Tasks_fetchAndDecodeTasks ::
  "world \<Rightarrow> Tasks \<Rightarrow> Tasks \<times> event list \<times> (error + TasksResponse)" where
  "Tasks_fetchAndDecodeTasks w s =
     (let u = url s;
          u = u\<lparr>Path := path_Join w (Path u) ''/_tasks''\<rparr>
      in Tasks_getAndParseURL w s u)"

definition Tasks_deferred :: "Tasks \<Rightarrow> event list" where
  "Tasks_deferred s =
     [Send (GaugeMetric (up s)),
      Send (CounterMetric (totalScrapes s)),
      Send (CounterMetric (jsonParseFailures s))]"

definition Tasks_Collect :: "world \<Rightarrow> Tasks \<Rightarrow> Tasks \<times> event list" where
  "Tasks_Collect w s =
     (let s1 = s\<lparr>totalScrapes := Inc (totalScrapes s)\<rparr>;
          tr1 = [Inc_totalScrapes]
      in case Tasks_fetchAndDecodeTasks w s1 of
           (s2, tr2, Inl err) \<Rightarrow>
             (let s3 = s2\<lparr>up := Set_Gauge (up s2) 0\<rparr>
              in (s3, tr1 @ tr2
                      @ [Set_up 0,
                         LogWarn (logger s3) ''failed to fetch and decode tasks'' err]
                      @ Tasks_deferred s3))
         | (s2, tr2, Inr tasksResp) \<Rightarrow>
             (let s3 = s2\<lparr>up := Set_Gauge (up s2) 1\<rparr>
              in (s3, tr1 @ tr2
                      @ [Set_up 1]
                      @ concat (map (\<lambda>metric.
                                  [CallValue (Desc metric),
                                   Send (ConstMetric (Desc metric) (Type metric)
                                          (Value metric tasksResp))])
                                (taskMetrics s3))
                      @ Tasks_deferred s3)))"

section \<open>Observations the properties are stated with\<close>

text \<open>The tasks of a response, node by node, in the order the loops visit them.\<close>

definition all_tasks :: "TasksResponse \<Rightarrow> Task list" where
  "all_tasks tasks =
     concat (map (\<lambda>(_, node). map snd (go_range (Tasks node))) (go_range (Nodes tasks)))"

text \<open>The metrics a trace sends on the channel, in order.\<close>

fun sent :: "event list \<Rightarrow> Metric list" where
  "sent [] = []"
| "sent (Send m # tr) = m # sent tr"
| "sent (_ # tr) = sent tr"

fun is_ConstMetric :: "Metric \<Rightarrow> bool" where
  "is_ConstMetric (ConstMetric _ _ _) = True"
| "is_ConstMetric _ = False"

fun is_CallValue :: "event \<Rightarrow> bool" where
  "is_CallValue (CallValue _) = True"
| "is_CallValue _ = False"

fun is_HttpDo :: "event \<Rightarrow> bool" where
  "is_HttpDo (HttpDo _ _) = True"
| "is_HttpDo _ = False"

text \<open>
  The outcome of one pull as the spec classifies it: the request could not be
  completed, the status is not 200, the body does not decode, or a value is decoded.
\<close>

datatype 'a pull = TransportFailed | StatusFailed | DecodeFailed | Decoded 'a

definition pull_of :: "(string \<Rightarrow> error + 'a) \<Rightarrow> error + Response \<Rightarrow> 'a pull" where
  "pull_of dec reply =
     (case reply of
        Inl _ \<Rightarrow> TransportFailed
      | Inr res \<Rightarrow>
          if StatusCode res \<noteq> 200 then StatusFailed
          else (case dec (Body res) of Inl _ \<Rightarrow> DecodeFailed | Inr d \<Rightarrow> Decoded d))"

text \<open>The URL each collector pulls, and the answer its request receives.\<close>

definition Tasks_target :: "world \<Rightarrow> Tasks \<Rightarrow> URL" where
  "Tasks_target w s = (url s)\<lparr>Path := path_Join w (Path (url s)) ''/_tasks''\<rparr>"

definition Tasks_upstream :: "world \<Rightarrow> Tasks \<Rightarrow> error + Response" where
  "Tasks_upstream w s = snd (http_Get w (client s) (url_String w (Tasks_target w s)))"

definition Tasks_pull :: "world \<Rightarrow> Tasks \<Rightarrow> TasksResponse pull" where
  "Tasks_pull w s = pull_of (Decode_Tasks w) (Tasks_upstream w s)"

definition LogsQueries_target :: "world \<Rightarrow> LogsQueries \<Rightarrow> URL" where
  "LogsQueries_target w s =
     (LogsQueries.url s)\<lparr>Path := path_Join w (Path (LogsQueries.url s)) ''/elasticsearch-*/_search''\<rparr>"

definition LogsQueries_upstream :: "world \<Rightarrow> LogsQueries \<Rightarrow> error + Response" where
  "LogsQueries_upstream w s =
     snd (LogsQueries_getNetworkDiscoveryReq w s (LogsQueries_target w s))"

definition LogsQueries_pull :: "world \<Rightarrow> LogsQueries \<Rightarrow> NetworkDiscoveryErrorQueryResponse pull" where
  "LogsQueries_pull w s = pull_of (Decode_Query w) (LogsQueries_upstream w s)"

text \<open>The bookkeeping metrics of a collector, as \<^verbatim>\<open>Collect\<close> sends them.\<close>

definition Tasks_bookkeeping :: "Tasks \<Rightarrow> Metric list" where
  "Tasks_bookkeeping s =
     [GaugeMetric (up s), CounterMetric (totalScrapes s), CounterMetric (jsonParseFailures s)]"

definition LogsQueries_bookkeeping :: "LogsQueries \<Rightarrow> Metric list" where
  "LogsQueries_bookkeeping s =
     [GaugeMetric (LogsQueries.up s), CounterMetric (LogsQueries.totalScrapes s),
      CounterMetric (LogsQueries.jsonParseFailures s)]"

text \<open>Any number of \<^verbatim>\<open>Collect\<close> calls, one after the other, each against its own outside.\<close>

fun Tasks_Collects :: "world list \<Rightarrow> Tasks \<Rightarrow> Tasks" where
  "Tasks_Collects [] s = s"
| "Tasks_Collects (w # ws) s = Tasks_Collects ws (fst (Tasks_Collect w s))"

fun LogsQueries_Collects :: "world list \<Rightarrow> LogsQueries \<Rightarrow> LogsQueries" where
  "LogsQueries_Collects [] s = s"
| "LogsQueries_Collects (w # ws) s = LogsQueries_Collects ws (fst (LogsQueries_Collect w s))"

text \<open>The same outside, but where closing a response body returns \<open>r\<close>.\<close>

definition closing_returns :: "error option \<Rightarrow> world \<Rightarrow> world" where
  "closing_returns r w =
     w\<lparr>http_Do := \<lambda>cl req. map_sum id (\<lambda>res. res\<lparr>BodyClose_result := r\<rparr>) (http_Do w cl req)\<rparr>"

section \<open>Sample collectors and upstreams\<close>

text \<open>
  Concrete inputs on which the statements below are exercised: a base URL, decoders
  that accept the two documents of the spec's scenarios, an upstream that gives one
  answer to every GET and another to every other request, and collectors built
  around a client with a timeout of five seconds (in nanoseconds). \<^verbatim>\<open>path.Join\<close> is
  concatenation on the elements met here (a clean base without a trailing slash).
\<close>

definition sample_url :: URL where
  "sample_url = \<lparr>Scheme = ''http'', Host = ''localhost:9200'', Path = []\<rparr>"

definition sample_Decode_Tasks :: "string \<Rightarrow> error + TasksResponse" where
  \<open>sample_Decode_Tasks body =
     (if body = ''{"nodes":{}}'' then Inr \<lparr>Nodes = DAList.empty\<rparr>
      else Inl (DecodeError ''unexpected end of JSON input''))\<close>

definition sample_Decode_Query :: "string \<Rightarrow> error + NetworkDiscoveryErrorQueryResponse" where
  \<open>sample_Decode_Query body =
     (if body = ''{"hits":{"total": 7}}'' then Inr \<lparr>Hits = \<lparr>Total = 7\<rparr>\<rparr>
      else Inl (DecodeError ''unexpected end of JSON input''))\<close>

definition answering :: "(error + Response) \<Rightarrow> (error + Response) \<Rightarrow> world" where
  "answering tasks_reply search_reply =
     \<lparr>http_Do = (\<lambda>cl req. if Method req = ''GET'' then tasks_reply else search_reply),
      path_Join = (\<lambda>a b. a @ b),
      url_String = (\<lambda>u. Scheme u @ ''://'' @ Host u @ Path u),
      Decode_Tasks = sample_Decode_Tasks,
      Decode_Query = sample_Decode_Query\<rparr>"

definition injected_client :: http_Client where
  "injected_client = zero_http_Client\<lparr>Timeout := 5000000000\<rparr>"

definition sample_Tasks :: Tasks where
  "sample_Tasks = NewTasks ''elasticsearch'' 0 injected_client sample_url"

definition sample_LogsQueries :: LogsQueries where
  "sample_LogsQueries = NewLogsQueries ''elasticsearch'' 0 injected_client sample_url"

definition http_500 :: "error + Response" where
  "http_500 = Inr \<lparr>StatusCode = 500, Body = [], BodyClose_result = None\<rparr>"

definition http_200 :: "string \<Rightarrow> error option \<Rightarrow> error + Response" where
  "http_200 body closing = Inr \<lparr>StatusCode = 200, Body = body, BodyClose_result = closing\<rparr>"

text \<open>
  An upstream that answers both requests with status 200 and the documents of the
  spec's scenarios; \<open>closing\<close> is what closing either body returns.
\<close>

definition upstream_ok :: "error option \<Rightarrow> world" where
  \<open>upstream_ok closing =
     answering (http_200 ''{"nodes":{}}'' closing) (http_200 ''{"hits":{"total": 7}}'' closing)\<close>

section \<open>The extraction functions\<close>

subsection \<open>Division by a million\<close>

lemma sdiv_million_cases:
  "(k::int) sdiv 1000000 = (if 0 \<le> k then k div 1000000 else - ((- k) div 1000000))"
  by (simp add: signed_divide_int_def sgn_if)

lemma sdiv_million_bounds:
  fixes k :: int
  assumes "- (2 ^ 63) \<le> k" "k < 2 ^ 63"
  shows "- (2 ^ 63) \<le> k sdiv 1000000 \<and> k sdiv 1000000 < 2 ^ 63"
  using assms unfolding sdiv_million_cases by (auto simp: algebra_simps)

text \<open>The quotient fits the word: nothing wraps.\<close>

lemma sint_go_quo_million: "sint (go_quo r 1000000) = sint r sdiv 1000000"
proof -
  have lo: "- (2 ^ 63) \<le> sint r" using sint_ge [of r] by simp
  have hi: "sint r < 2 ^ 63" using sint_lt [of r] by simp
  have "signed_take_bit 63 (sint r sdiv 1000000) = sint r sdiv 1000000"
    using sdiv_million_bounds [OF lo hi] by (simp add: signed_take_bit_int_eq_self)
  then show ?thesis
    by (simp add: go_quo_def sint_sbintrunc')
qed

lemma gt_1000_sdiv_iff: "(1000 < (k::int) sdiv 1000000) = (1001000000 \<le> k)"
  unfolding sdiv_million_cases by auto

lemma gt_1000_div_iff: "(1000 < (k::int) div 1000000) = (1001000000 \<le> k)"
  by auto

subsection \<open>The loops\<close>

lemma total_gt_1s_task_eq:
  "total_gt_1s_task task count =
     (if 1000 < sint (RunningTimeInNanos task) sdiv 1000000 then count + 1 else count)"
  by (simp add: total_gt_1s_task_def go_gt_def sint_go_quo_million)

lemma fold_total_gt_1s_task:
  "fold (\<lambda>(_, task) count. total_gt_1s_task task count) kts count =
     count + int (length (filter (\<lambda>task. 1000 < sint (RunningTimeInNanos task) sdiv 1000000)
                            (map snd kts)))"
  by (induction kts arbitrary: count) (auto simp: total_gt_1s_task_eq)

lemma fold_nodes_gt_1s:
  "fold (\<lambda>(_, node) count.
           fold (\<lambda>(_, task) count. total_gt_1s_task task count) (go_range (Tasks node)) count)
     kns count =
   count + int (length (filter (\<lambda>task. 1000 < sint (RunningTimeInNanos task) sdiv 1000000)
                  (concat (map (\<lambda>(_, node). map snd (go_range (Tasks node))) kns))))"
  by (induction kns arbitrary: count) (auto simp: fold_total_gt_1s_task)

lemma total_gt_1s_Value_filter:
  "total_gt_1s_Value tasks =
     int (length (filter (\<lambda>task. 1000 < sint (RunningTimeInNanos task) sdiv 1000000)
                    (all_tasks tasks)))"
  by (simp add: total_gt_1s_Value_def all_tasks_def fold_nodes_gt_1s)

lemma fold_total:
  "fold (\<lambda>(_, node) count. count + go_len (Tasks node)) kns count =
     count + (\<Sum>(_, node)\<leftarrow>kns. go_len (Tasks node))"
  by (induction kns arbitrary: count) auto

lemma total_Value_sum_list:
  "total_Value tasks = (\<Sum>(_, node)\<leftarrow>go_range (Nodes tasks). go_len (Tasks node))"
  by (simp add: total_Value_def fold_total)

lemma total_Value_all_tasks: "total_Value tasks = int (length (all_tasks tasks))"
proof -
  have "(\<Sum>(_, node)\<leftarrow>kns. go_len (Tasks node)) =
        int (length (concat (map (\<lambda>(_, node). map snd (go_range (Tasks node))) kns)))"
    for kns :: "(string \<times> Node) list"
    by (induction kns) (auto simp: go_len_def go_range_def)
  then show ?thesis by (simp add: total_Value_sum_list all_tasks_def)
qed

text \<open>\<^verbatim>\<open>len\<close> of a map is the number of its keys.\<close>

lemma go_len_card: "go_len m = int (card (dom (DAList.lookup m)))"
proof -
  have "card (dom (map_of (DAList.impl_of m))) = length (DAList.impl_of m)"
    using distinct_card [of "map fst (DAList.impl_of m)"]
    by (simp add: dom_map_of_conv_image_fst)
  then show ?thesis by (simp add: go_len_def DAList.lookup.rep_eq)
qed

text \<open>A sum over the entries of a map does not depend on the order they are visited in.\<close>

lemma sum_list_distinct_map_of:
  "distinct (map fst xs) \<Longrightarrow>
     (\<Sum>(k, v)\<leftarrow>xs. f v) = (\<Sum>k\<in>dom (map_of xs). f (the (map_of xs k)))"
proof (induction xs)
  case Nil
  then show ?case by simp
next
  case (Cons kv xs)
  obtain k v where kv: "kv = (k, v)" by (cases kv)
  from Cons.prems kv have notin: "k \<notin> dom (map_of xs)" and dist: "distinct (map fst xs)"
    by (auto simp: dom_map_of_conv_image_fst)
  have "(\<Sum>j\<in>dom (map_of (kv # xs)). f (the (map_of (kv # xs) j))) =
        f v + (\<Sum>j\<in>dom (map_of xs). f (the (map_of (kv # xs) j)))"
    using notin by (simp add: kv finite_dom_map_of)
  also have "(\<Sum>j\<in>dom (map_of xs). f (the (map_of (kv # xs) j))) =
             (\<Sum>j\<in>dom (map_of xs). f (the (map_of xs j)))"
    using notin by (intro sum.cong) (auto simp: kv)
  finally show ?case using Cons.IH [OF dist] by (simp add: kv)
qed

text \<open>
  C1: a task with \<^verbatim>\<open>running_time_in_nanos = r\<close> is counted by \<^verbatim>\<open>total_gt_1s\<close> if and only if
  \<open>r\<close> divided by 1,000,000 by integer division is strictly greater than 1000. The
  value of the function is the number of tasks of the response that pass this test;
  the loop body adds one exactly for such a task; Go's truncating quotient and the
  rounded-down quotient give the same verdict; and a task that has run for exactly
  1000 ms (\<open>r = 1,000,000,000\<close>) leaves the counter as it is.
\<close>

theorem total_gt_1s_counts_iff_over_1000_ms:
  "total_gt_1s_Value tasks =
     int (length (filter (\<lambda>task. 1000 < sint (RunningTimeInNanos task) sdiv 1000000)
                    (all_tasks tasks)))
   \<and> total_gt_1s_task task count =
       (if 1000 < sint (RunningTimeInNanos task) sdiv 1000000 then count + 1 else count)
   \<and> ((1000 < sint (RunningTimeInNanos task) sdiv 1000000) =
        (1000 < sint (RunningTimeInNanos task) div 1000000))
   \<and> total_gt_1s_task (task\<lparr>RunningTimeInNanos := 1000000000\<rparr>) count = count"
proof -
  have "total_gt_1s_task (task\<lparr>RunningTimeInNanos := 1000000000\<rparr>) count = count"
    by (simp add: total_gt_1s_task_eq sdiv_million_cases)
  then show ?thesis
    by (simp add: total_gt_1s_Value_filter total_gt_1s_task_eq gt_1000_sdiv_iff gt_1000_div_iff)
qed

text \<open>
  C2: for a response with N nodes whose task maps have sizes \<open>c\<^sub>1, \<dots>, c\<^sub>N\<close>, the \<^verbatim>\<open>total\<close>
  function returns the sum of the \<open>c\<^sub>i\<close>: the sum, over the keys of the node map, of
  the number of keys of that node's task map. With an empty node map it returns 0.
\<close>

theorem total_is_sum_of_task_map_sizes:
  "total_Value tasks =
     (\<Sum>k\<in>dom (DAList.lookup (Nodes tasks)).
        int (card (dom (DAList.lookup (Tasks (the (DAList.lookup (Nodes tasks) k)))))))
   \<and> total_Value (tasks\<lparr>Nodes := DAList.empty\<rparr>) = 0"
proof -
  have "total_Value (tasks\<lparr>Nodes := DAList.empty\<rparr>) = 0"
    by (simp add: total_Value_def go_range_def DAList.empty.rep_eq)
  moreover have "total_Value tasks =
     (\<Sum>k\<in>dom (DAList.lookup (Nodes tasks)).
        int (card (dom (DAList.lookup (Tasks (the (DAList.lookup (Nodes tasks) k)))))))"
    using sum_list_distinct_map_of
            [of "DAList.impl_of (Nodes tasks)" "\<lambda>node. go_len (Tasks node)"]
    by (simp add: total_Value_sum_list go_range_def DAList.lookup.rep_eq go_len_card)
  ultimately show ?thesis by simp
qed

text \<open>
  C10: for every decoded response the value of \<^verbatim>\<open>total_gt_1s\<close> is at most the value of
  \<^verbatim>\<open>total\<close>: the tasks counted as running longer than a second are among the tasks
  counted in the total.
\<close>

theorem total_gt_1s_le_total: "total_gt_1s_Value tasks \<le> total_Value tasks"
  by (simp add: total_gt_1s_Value_filter total_Value_all_tasks)

section \<open>The collectors\<close>

lemmas common_defs = pull_of_def close_Body_def StatusOK_def Set_Gauge_def Inc_def

lemmas Tasks_defs = Tasks_Collect_def Tasks_fetchAndDecodeTasks_def Tasks_getAndParseURL_def
  http_Get_def Tasks_upstream_def Tasks_target_def Tasks_pull_def Tasks_deferred_def
  Tasks_bookkeeping_def

lemmas LogsQueries_defs = LogsQueries_Collect_def LogsQueries_fetchAndDecodeTasks_def
  LogsQueries_getAndParseURL_def LogsQueries_getNetworkDiscoveryReq_def LogsQueries_upstream_def
  LogsQueries_target_def LogsQueries_pull_def LogsQueries_deferred_def
  LogsQueries_bookkeeping_def

subsection \<open>Traces\<close>

lemma sent_append [simp]: "sent (xs @ ys) = sent xs @ sent ys"
  by (induction xs rule: sent.induct) auto

text \<open>The loop over the metrics: one call and one send per metric, nothing else.\<close>

lemma sent_metric_loop [simp]:
  "sent (concat (map (\<lambda>metric. [CallValue (d metric), Send (f metric)]) ms)) = map f ms"
  by (induction ms) auto

lemma metric_loop_other_events [simp]:
  "count_list (concat (map (\<lambda>metric. [CallValue (d metric), Send (f metric)]) ms))
     Inc_totalScrapes = 0"
  "count_list (concat (map (\<lambda>metric. [CallValue (d metric), Send (f metric)]) ms))
     Inc_jsonParseFailures = 0"
  "filter is_HttpDo (concat (map (\<lambda>metric. [CallValue (d metric), Send (f metric)]) ms)) = []"
  by (induction ms) auto

subsection \<open>The sample pulls\<close>

lemma sample_pulls:
  "Tasks_pull (answering http_500 http_500) sample_Tasks = StatusFailed"
  "LogsQueries_pull (answering http_500 http_500) sample_LogsQueries = StatusFailed"
  "Tasks_pull (upstream_ok None) sample_Tasks = Decoded \<lparr>Nodes = DAList.empty\<rparr>"
  "LogsQueries_pull (upstream_ok None) sample_LogsQueries = Decoded \<lparr>Hits = \<lparr>Total = 7\<rparr>\<rparr>"
  by (simp_all add: Tasks_pull_def Tasks_upstream_def http_Get_def pull_of_def answering_def
      upstream_ok_def http_500_def http_200_def LogsQueries_pull_def LogsQueries_upstream_def
      LogsQueries_getNetworkDiscoveryReq_def sample_Decode_Tasks_def sample_Decode_Query_def)

subsection \<open>Failed pulls\<close>

text \<open>
  C3: when the pull of a \<^verbatim>\<open>Collect\<close> call fails (the request cannot be completed, the
  status is not 200, or the body does not decode), the call sets \<^verbatim>\<open>up\<close> to 0, sends
  exactly the three bookkeeping metrics (\<^verbatim>\<open>up\<close>, \<^verbatim>\<open>total_scrapes\<close>, \<^verbatim>\<open>json_parse_failures\<close>)
  and nothing else on the channel, and calls no extraction function. This holds for
  the tasks collector and for the error-query collector.
\<close>

theorem failed_pull_sends_only_bookkeeping:
  "(Tasks_pull w s \<in> {TransportFailed, StatusFailed, DecodeFailed} \<longrightarrow>
      (case Tasks_Collect w s of (s', tr) \<Rightarrow>
         gaugeVal (up s') = 0 \<and> Set_up 0 \<in> set tr
         \<and> sent tr = Tasks_bookkeeping s'
         \<and> filter is_CallValue tr = []))
   \<and> (LogsQueries_pull w q \<in> {TransportFailed, StatusFailed, DecodeFailed} \<longrightarrow>
      (case LogsQueries_Collect w q of (q', tr) \<Rightarrow>
         gaugeVal (LogsQueries.up q') = 0 \<and> Set_up 0 \<in> set tr
         \<and> sent tr = LogsQueries_bookkeeping q'
         \<and> filter is_CallValue tr = []))"
  by (auto simp: Tasks_defs LogsQueries_defs common_defs Let_def split: sum.splits option.splits if_splits)

text \<open>The upstream answers 500 to both sample collectors.\<close>

theorem failed_pull_sends_only_bookkeeping_witness:
  "Tasks_pull (answering http_500 http_500) sample_Tasks
     \<in> {TransportFailed, StatusFailed, DecodeFailed}
   \<and> (case Tasks_Collect (answering http_500 http_500) sample_Tasks of (s', tr) \<Rightarrow>
         gaugeVal (up s') = 0 \<and> Set_up 0 \<in> set tr
         \<and> sent tr = Tasks_bookkeeping s'
         \<and> filter is_CallValue tr = [])
   \<and> LogsQueries_pull (answering http_500 http_500) sample_LogsQueries
       \<in> {TransportFailed, StatusFailed, DecodeFailed}
   \<and> (case LogsQueries_Collect (answering http_500 http_500) sample_LogsQueries of
         (q', tr) \<Rightarrow>
           gaugeVal (LogsQueries.up q') = 0 \<and> Set_up 0 \<in> set tr
           \<and> sent tr = LogsQueries_bookkeeping q'
           \<and> filter is_CallValue tr = [])"
  using failed_pull_sends_only_bookkeeping
          [where w = "answering http_500 http_500" and s = sample_Tasks
             and q = sample_LogsQueries]
  by (simp add: sample_pulls)

subsection \<open>The scrape counter\<close>

text \<open>
  C4: every \<^verbatim>\<open>Collect\<close> call of either collector increments \<^verbatim>\<open>totalScrapes\<close> exactly once,
  before the upstream request is sent, whatever becomes of the request, the status
  check and the decoding: the counter is one higher afterwards, the trace holds one
  increment and one request, the increment is its first event and the request its
  second.
\<close>

theorem totalScrapes_incremented_once_before_fetch:
  "(case Tasks_Collect w s of (s', tr) \<Rightarrow>
      counterVal (totalScrapes s') = counterVal (totalScrapes s) + 1
      \<and> count_list tr Inc_totalScrapes = 1
      \<and> length (filter is_HttpDo tr) = 1
      \<and> tr ! 0 = Inc_totalScrapes
      \<and> is_HttpDo (tr ! 1))
   \<and> (case LogsQueries_Collect w q of (q', tr) \<Rightarrow>
      counterVal (LogsQueries.totalScrapes q') = counterVal (LogsQueries.totalScrapes q) + 1
      \<and> count_list tr Inc_totalScrapes = 1
      \<and> length (filter is_HttpDo tr) = 1
      \<and> tr ! 0 = Inc_totalScrapes
      \<and> is_HttpDo (tr ! 1))"
  by (auto simp: Tasks_defs LogsQueries_defs common_defs Let_def split: sum.splits option.splits)

subsection \<open>The parse-failure counter\<close>

text \<open>
  C5: a \<^verbatim>\<open>Collect\<close> call of either collector increments \<^verbatim>\<open>jsonParseFailures\<close>, by exactly
  one, if and only if a response with status 200 was obtained and decoding its body
  failed; a transport failure or another status leaves the counter as it was.
\<close>

theorem jsonParseFailures_incremented_iff_decode_fails:
  "(case Tasks_Collect w s of (s', tr) \<Rightarrow>
      counterVal (jsonParseFailures s') =
        counterVal (jsonParseFailures s) + (if Tasks_pull w s = DecodeFailed then 1 else 0)
      \<and> count_list tr Inc_jsonParseFailures =
          (if Tasks_pull w s = DecodeFailed then 1 else 0))
   \<and> (Tasks_pull w s = DecodeFailed) =
       (\<exists>res err. Tasks_upstream w s = Inr res \<and> StatusCode res = 200
                  \<and> Decode_Tasks w (Body res) = Inl err)
   \<and> (case LogsQueries_Collect w q of (q', tr) \<Rightarrow>
      counterVal (LogsQueries.jsonParseFailures q') =
        counterVal (LogsQueries.jsonParseFailures q)
        + (if LogsQueries_pull w q = DecodeFailed then 1 else 0)
      \<and> count_list tr Inc_jsonParseFailures =
          (if LogsQueries_pull w q = DecodeFailed then 1 else 0))
   \<and> (LogsQueries_pull w q = DecodeFailed) =
       (\<exists>res err. LogsQueries_upstream w q = Inr res \<and> StatusCode res = 200
                  \<and> Decode_Query w (Body res) = Inl err)"
  by (auto simp: Tasks_defs LogsQueries_defs common_defs Let_def split: sum.splits option.splits if_splits)

subsection \<open>Successful pulls\<close>

text \<open>
  C6: when the pull of a \<^verbatim>\<open>Collect\<close> call succeeds, \<^verbatim>\<open>up\<close> is set to 1 and one constant
  metric is sent per extraction descriptor, in the order of the descriptors and with
  the value of its function at the decoded response (two for a tasks collector, one
  for an error-query collector). On every call, successful or not, what is sent is
  the constant metrics followed by the three bookkeeping metrics, once each.
\<close>

theorem successful_pull_sends_every_metric_then_bookkeeping:
  "(case Tasks_Collect w s of (s', tr) \<Rightarrow>
      sent tr = filter is_ConstMetric (sent tr) @ Tasks_bookkeeping s'
      \<and> (\<forall>d. Tasks_pull w s = Decoded d \<longrightarrow>
             gaugeVal (up s') = 1 \<and> Set_up 1 \<in> set tr
             \<and> filter is_ConstMetric (sent tr) =
                 map (\<lambda>m. ConstMetric (Desc m) (Type m) (Value m d)) (taskMetrics s)))
   \<and> length (taskMetrics (NewTasks ns lg cl u)) = 2
   \<and> (case LogsQueries_Collect w q of (q', tr) \<Rightarrow>
      sent tr = filter is_ConstMetric (sent tr) @ LogsQueries_bookkeeping q'
      \<and> (\<forall>d. LogsQueries_pull w q = Decoded d \<longrightarrow>
             gaugeVal (LogsQueries.up q') = 1 \<and> Set_up 1 \<in> set tr
             \<and> filter is_ConstMetric (sent tr) =
                 map (\<lambda>m. ConstMetric (networkDiscoveryErrorQueryMetric.Desc m)
                              (networkDiscoveryErrorQueryMetric.Type m)
                              (networkDiscoveryErrorQueryMetric.Value m d))
                   (networkDiscoveryErrorQueryMetrics q)))
   \<and> length (networkDiscoveryErrorQueryMetrics (NewLogsQueries ns lg cl u)) = 1"
  by (auto simp: Tasks_defs LogsQueries_defs common_defs NewTasks_def NewLogsQueries_def Let_def
        filter_map comp_def
      split: sum.splits option.splits if_splits)

text \<open>The upstream answers the two documents of the spec's scenarios.\<close>

theorem successful_pull_sends_every_metric_then_bookkeeping_witness:
  "Tasks_pull (upstream_ok None) sample_Tasks = Decoded \<lparr>Nodes = DAList.empty\<rparr>
   \<and> gaugeVal (up (fst (Tasks_Collect (upstream_ok None) sample_Tasks))) = 1
   \<and> filter is_ConstMetric (sent (snd (Tasks_Collect (upstream_ok None) sample_Tasks))) =
       map (\<lambda>m. ConstMetric (Desc m) (Type m) (Value m \<lparr>Nodes = DAList.empty\<rparr>))
         (taskMetrics sample_Tasks)
   \<and> LogsQueries_pull (upstream_ok None) sample_LogsQueries =
       Decoded \<lparr>Hits = \<lparr>Total = 7\<rparr>\<rparr>
   \<and> gaugeVal (LogsQueries.up (fst (LogsQueries_Collect (upstream_ok None)
         sample_LogsQueries))) = 1
   \<and> filter is_ConstMetric
         (sent (snd (LogsQueries_Collect (upstream_ok None) sample_LogsQueries))) =
       map (\<lambda>m. ConstMetric (networkDiscoveryErrorQueryMetric.Desc m)
                    (networkDiscoveryErrorQueryMetric.Type m)
                    (networkDiscoveryErrorQueryMetric.Value m \<lparr>Hits = \<lparr>Total = 7\<rparr>\<rparr>))
         (networkDiscoveryErrorQueryMetrics sample_LogsQueries)"
  using successful_pull_sends_every_metric_then_bookkeeping
          [where w = "upstream_ok None" and s = sample_Tasks and q = sample_LogsQueries]
  by (simp add: sample_pulls case_prod_beta)

subsection \<open>Descriptors\<close>

text \<open>\<^verbatim>\<open>Collect\<close> changes two counter values and a gauge value, and nothing else.\<close>

lemma Tasks_Collect_static:
  "taskMetrics (fst (Tasks_Collect w s)) = taskMetrics s
   \<and> gaugeDesc (up (fst (Tasks_Collect w s))) = gaugeDesc (up s)
   \<and> counterDesc (totalScrapes (fst (Tasks_Collect w s))) = counterDesc (totalScrapes s)
   \<and> counterDesc (jsonParseFailures (fst (Tasks_Collect w s))) =
       counterDesc (jsonParseFailures s)"
  by (auto simp: Tasks_defs common_defs Let_def split: sum.splits option.splits if_splits)

lemma Tasks_Describe_Collect: "Tasks_Describe (fst (Tasks_Collect w s)) = Tasks_Describe s"
  by (simp add: Tasks_Describe_def Tasks_Collect_static)

lemma Tasks_Describe_Collects: "Tasks_Describe (Tasks_Collects ws s) = Tasks_Describe s"
  by (induction ws arbitrary: s) (simp_all add: Tasks_Describe_Collect)

lemma LogsQueries_Collect_static:
  "networkDiscoveryErrorQueryMetrics (fst (LogsQueries_Collect w q)) =
     networkDiscoveryErrorQueryMetrics q
   \<and> gaugeDesc (LogsQueries.up (fst (LogsQueries_Collect w q))) = gaugeDesc (LogsQueries.up q)
   \<and> counterDesc (LogsQueries.totalScrapes (fst (LogsQueries_Collect w q))) =
       counterDesc (LogsQueries.totalScrapes q)
   \<and> counterDesc (LogsQueries.jsonParseFailures (fst (LogsQueries_Collect w q))) =
       counterDesc (LogsQueries.jsonParseFailures q)"
  by (auto simp: LogsQueries_defs common_defs Let_def split: sum.splits option.splits if_splits)

lemma LogsQueries_Describe_Collect:
  "LogsQueries_Describe (fst (LogsQueries_Collect w q)) = LogsQueries_Describe q"
  by (simp add: LogsQueries_Describe_def LogsQueries_Collect_static)

lemma LogsQueries_Describe_Collects:
  "LogsQueries_Describe (LogsQueries_Collects ws q) = LogsQueries_Describe q"
  by (induction ws arbitrary: q) (simp_all add: LogsQueries_Describe_Collect)

lemma Tasks_sent_described:
  "set (map Metric_Desc (sent (snd (Tasks_Collect w s)))) \<subseteq> set (Tasks_Describe s)"
  by (auto simp: Tasks_defs common_defs Tasks_Describe_def Let_def
      split: sum.splits option.splits if_splits)

lemma LogsQueries_sent_described:
  "set (map Metric_Desc (sent (snd (LogsQueries_Collect w q)))) \<subseteq> set (LogsQueries_Describe q)"
  by (auto simp: LogsQueries_defs common_defs LogsQueries_Describe_def Let_def
      split: sum.splits option.splits if_splits)

lemma Tasks_Describe_NewTasks:
  "Tasks_Describe (NewTasks ns lg cl u) =
     map (\<lambda>(n, h). NewDesc (BuildFQName ns ''tasks'' n) h)
       [(''total'', ''Number of tasks''),
        (''total_gt_1s'', ''Number of tasks greater then 1 second''),
        (''up'', ''Was the last scrape of the ElasticSearch tasks endpoint successful.''),
        (''total_scrapes'', ''Current total ElasticSearch tasks scrapes.''),
        (''json_parse_failures'', ''Number of errors while parsing JSON.'')]"
  by (simp add: Tasks_Describe_def NewTasks_def NewGauge_def NewCounter_def Let_def)

lemma LogsQueries_Describe_NewLogsQueries:
  "LogsQueries_Describe (NewLogsQueries ns lg cl u) =
     map (\<lambda>(n, h). NewDesc (BuildFQName ns ''queries'' n) h)
       [(''total_network_discovery_error'', ''Number of total network discovery''),
        (''up'', ''Was the last scrape of the ElasticSearch tasks endpoint successful.''),
        (''total_scrapes'', ''Current total ElasticSearch tasks scrapes.''),
        (''json_parse_failures'', ''Number of errors while parsing JSON.'')]"
  by (simp add: LogsQueries_Describe_def NewLogsQueries_def NewGauge_def NewCounter_def Let_def)

text \<open>
  C8: for each collector the sequence of descriptors that \<^verbatim>\<open>Describe\<close> produces is the
  same after any number of \<^verbatim>\<open>Collect\<close> calls as before them, and it lists the descriptor
  of every metric a \<^verbatim>\<open>Collect\<close> call sends: the descriptors of the extraction functions
  followed by those of \<^verbatim>\<open>up\<close>, \<^verbatim>\<open>total_scrapes\<close> and \<^verbatim>\<open>json_parse_failures\<close>. For a collector
  made by its constructor these are the descriptors the constructor builds, whatever
  has been collected since.
\<close>

theorem Describe_fixed_and_covers_sent_metrics:
  "Tasks_Describe (Tasks_Collects ws s) = Tasks_Describe s
   \<and> set (map Metric_Desc (sent (snd (Tasks_Collect w s)))) \<subseteq> set (Tasks_Describe s)
   \<and> Tasks_Describe s =
       map Desc (taskMetrics s)
       @ [gaugeDesc (up s), counterDesc (totalScrapes s), counterDesc (jsonParseFailures s)]
   \<and> Tasks_Describe (Tasks_Collects ws (NewTasks ns lg cl u)) =
       map (\<lambda>(n, h). NewDesc (BuildFQName ns ''tasks'' n) h)
         [(''total'', ''Number of tasks''),
          (''total_gt_1s'', ''Number of tasks greater then 1 second''),
          (''up'', ''Was the last scrape of the ElasticSearch tasks endpoint successful.''),
          (''total_scrapes'', ''Current total ElasticSearch tasks scrapes.''),
          (''json_parse_failures'', ''Number of errors while parsing JSON.'')]
   \<and> LogsQueries_Describe (LogsQueries_Collects ws q) = LogsQueries_Describe q
   \<and> set (map Metric_Desc (sent (snd (LogsQueries_Collect w q))))
       \<subseteq> set (LogsQueries_Describe q)
   \<and> LogsQueries_Describe q =
       map networkDiscoveryErrorQueryMetric.Desc (networkDiscoveryErrorQueryMetrics q)
       @ [gaugeDesc (LogsQueries.up q), counterDesc (LogsQueries.totalScrapes q),
          counterDesc (LogsQueries.jsonParseFailures q)]
   \<and> LogsQueries_Describe (LogsQueries_Collects ws (NewLogsQueries ns lg cl u)) =
       map (\<lambda>(n, h). NewDesc (BuildFQName ns ''queries'' n) h)
         [(''total_network_discovery_error'', ''Number of total network discovery''),
          (''up'', ''Was the last scrape of the ElasticSearch tasks endpoint successful.''),
          (''total_scrapes'', ''Current total ElasticSearch tasks scrapes.''),
          (''json_parse_failures'', ''Number of errors while parsing JSON.'')]"
proof -
  have "Tasks_Describe s =
       map Desc (taskMetrics s)
       @ [gaugeDesc (up s), counterDesc (totalScrapes s), counterDesc (jsonParseFailures s)]"
    by (simp add: Tasks_Describe_def)
  moreover have "LogsQueries_Describe q =
       map networkDiscoveryErrorQueryMetric.Desc (networkDiscoveryErrorQueryMetrics q)
       @ [gaugeDesc (LogsQueries.up q), counterDesc (LogsQueries.totalScrapes q),
          counterDesc (LogsQueries.jsonParseFailures q)]"
    by (simp add: LogsQueries_Describe_def)
  ultimately show ?thesis
    using Tasks_sent_described [of w s] LogsQueries_sent_described [of w q]
      Tasks_Describe_NewTasks [of ns lg cl u]
      LogsQueries_Describe_NewLogsQueries [of ns lg cl u]
    by (simp only: Tasks_Describe_Collects LogsQueries_Describe_Collects simp_thms)
qed

subsection \<open>Closing the response body\<close>

lemma closing_returns_simps [simp]:
  "http_Do (closing_returns c w) cl req =
     map_sum id (\<lambda>res. res\<lparr>BodyClose_result := c\<rparr>) (http_Do w cl req)"
  "url_String (closing_returns c w) = url_String w"
  "path_Join (closing_returns c w) = path_Join w"
  "Decode_Tasks (closing_returns c w) = Decode_Tasks w"
  "Decode_Query (closing_returns c w) = Decode_Query w"
  by (simp_all add: closing_returns_def)

text \<open>
  C9: on every exit path of \<^verbatim>\<open>getAndParseURL\<close> on which a response was obtained (status
  not 200, decoding failed, or success) the body is closed exactly once, as the last
  thing before the function returns; when closing fails, a warning with that error
  is logged; and neither the returned result nor the collector's state depends on
  what closing returns. Without a response, nothing is closed.
\<close>

theorem response_body_closed_once:
  "(case Tasks_getAndParseURL w s u of (s', tr, r) \<Rightarrow>
      (case snd (http_Get w (client s) (url_String w u)) of
         Inl err \<Rightarrow> BodyClose \<notin> set tr
       | Inr res \<Rightarrow>
           count_list tr BodyClose = 1
           \<and> (\<exists>tr0. tr = tr0 @ close_Body (logger s) res)
           \<and> (\<forall>err. BodyClose_result res = Some err \<longrightarrow>
                  last tr = LogWarn (logger s) ''failed to close http.Client'' err)))
   \<and> fst (Tasks_getAndParseURL (closing_returns c w) s u) = fst (Tasks_getAndParseURL w s u)
   \<and> snd (snd (Tasks_getAndParseURL (closing_returns c w) s u)) =
       snd (snd (Tasks_getAndParseURL w s u))
   \<and> (case LogsQueries_getAndParseURL w q v of (q', tr, r) \<Rightarrow>
      (case snd (LogsQueries_getNetworkDiscoveryReq w q v) of
         Inl err \<Rightarrow> BodyClose \<notin> set tr
       | Inr res \<Rightarrow>
           count_list tr BodyClose = 1
           \<and> (\<exists>tr0. tr = tr0 @ close_Body (LogsQueries.logger q) res)
           \<and> (\<forall>err. BodyClose_result res = Some err \<longrightarrow>
                  last tr =
                    LogWarn (LogsQueries.logger q) ''failed to close http.Client'' err)))
   \<and> fst (LogsQueries_getAndParseURL (closing_returns c w) q v) =
       fst (LogsQueries_getAndParseURL w q v)
   \<and> snd (snd (LogsQueries_getAndParseURL (closing_returns c w) q v)) =
       snd (snd (LogsQueries_getAndParseURL w q v))"
  by (auto simp: Tasks_defs LogsQueries_defs common_defs Let_def
      split: sum.splits option.splits if_splits)

text \<open>The upstream answers 200 to both collectors, and closing the body fails.\<close>

theorem response_body_closed_once_witness:
  \<open>snd (http_Get (upstream_ok (Some (CloseError ''closed''))) (client sample_Tasks)
          (url_String (upstream_ok (Some (CloseError ''closed'')))
             (sample_url\<lparr>Path := ''/_tasks''\<rparr>))) =
     Inr \<lparr>StatusCode = 200, Body = ''{"nodes":{}}'',
          BodyClose_result = Some (CloseError ''closed'')\<rparr>
   \<and> count_list (fst (snd (Tasks_getAndParseURL (upstream_ok (Some (CloseError ''closed'')))
         sample_Tasks (sample_url\<lparr>Path := ''/_tasks''\<rparr>)))) BodyClose = 1
   \<and> last (fst (snd (Tasks_getAndParseURL (upstream_ok (Some (CloseError ''closed'')))
         sample_Tasks (sample_url\<lparr>Path := ''/_tasks''\<rparr>)))) =
       LogWarn (logger sample_Tasks) ''failed to close http.Client'' (CloseError ''closed'')
   \<and> snd (LogsQueries_getNetworkDiscoveryReq (upstream_ok (Some (CloseError ''closed'')))
         sample_LogsQueries (sample_url\<lparr>Path := ''/elasticsearch-*/_search''\<rparr>)) =
       Inr \<lparr>StatusCode = 200, Body = ''{"hits":{"total": 7}}'',
            BodyClose_result = Some (CloseError ''closed'')\<rparr>
   \<and> count_list (fst (snd (LogsQueries_getAndParseURL
         (upstream_ok (Some (CloseError ''closed''))) sample_LogsQueries
         (sample_url\<lparr>Path := ''/elasticsearch-*/_search''\<rparr>)))) BodyClose = 1
   \<and> last (fst (snd (LogsQueries_getAndParseURL
         (upstream_ok (Some (CloseError ''closed''))) sample_LogsQueries
         (sample_url\<lparr>Path := ''/elasticsearch-*/_search''\<rparr>)))) =
       LogWarn (LogsQueries.logger sample_LogsQueries) ''failed to close http.Client''
         (CloseError ''closed'')\<close>
proof -
  let ?w = "upstream_ok (Some (CloseError ''closed''))"
  have get: \<open>snd (http_Get ?w (client sample_Tasks)
                 (url_String ?w (sample_url\<lparr>Path := ''/_tasks''\<rparr>))) =
             Inr \<lparr>StatusCode = 200, Body = ''{"nodes":{}}'',
                  BodyClose_result = Some (CloseError ''closed'')\<rparr>\<close>
    by (simp add: http_Get_def upstream_ok_def answering_def http_200_def)
  have post: \<open>snd (LogsQueries_getNetworkDiscoveryReq ?w sample_LogsQueries
                  (sample_url\<lparr>Path := ''/elasticsearch-*/_search''\<rparr>)) =
              Inr \<lparr>StatusCode = 200, Body = ''{"hits":{"total": 7}}'',
                   BodyClose_result = Some (CloseError ''closed'')\<rparr>\<close>
    by (simp add: LogsQueries_getNetworkDiscoveryReq_def upstream_ok_def answering_def
        http_200_def)
  show ?thesis
    using response_body_closed_once
            [where w = ?w and s = sample_Tasks and u = "sample_url\<lparr>Path := ''/_tasks''\<rparr>"
               and c = None and q = sample_LogsQueries
               and v = "sample_url\<lparr>Path := ''/elasticsearch-*/_search''\<rparr>"]
    by (simp add: get post case_prod_beta)
qed

subsection \<open>The client of each request\<close>

text \<open>
  C7: the scrape clients of the two collectors are claimed to differ only in method,
  path and body, both sending through the client injected at construction. Built
  with the same client, the tasks collector sends its GET to \<^verbatim>\<open><base>/_tasks\<close> through
  that client; the error-query collector keeps the client in its \<^verbatim>\<open>client\<close> field but
  sends its POST of the query document to \<^verbatim>\<open><base>/elasticsearch-*/_search\<close>, with a
  \<^verbatim>\<open>Content-Type\<close> header, through a client of its own whose fields are all zero.
\<close>

theorem error_query_pull_bypasses_injected_client:
  "filter is_HttpDo (snd (Tasks_Collect w (NewTasks ns lg injected_client u))) =
     [HttpDo injected_client
        \<lparr>Method = ''GET'',
         ReqURL = url_String w (u\<lparr>Path := path_Join w (Path u) ''/_tasks''\<rparr>),
         ReqHeader = [], ReqBody = None\<rparr>]
   \<and> filter is_HttpDo (snd (LogsQueries_Collect w (NewLogsQueries ns lg injected_client u))) =
     [HttpDo zero_http_Client
        \<lparr>Method = ''POST'',
         ReqURL = url_String w (u\<lparr>Path := path_Join w (Path u) ''/elasticsearch-*/_search''\<rparr>),
         ReqHeader = [(''Content-Type'', ''application/json'')], ReqBody = Some jsonStr\<rparr>]
   \<and> LogsQueries.client (NewLogsQueries ns lg injected_client u) = injected_client
   \<and> injected_client \<noteq> zero_http_Client"
proof -
  have "injected_client \<noteq> zero_http_Client"
    by (simp add: injected_client_def zero_http_Client_def)
  moreover have "LogsQueries.client (NewLogsQueries ns lg injected_client u) = injected_client"
    by (simp add: NewLogsQueries_def Let_def)
  moreover have
    "filter is_HttpDo (snd (Tasks_Collect w (NewTasks ns lg injected_client u))) =
       [HttpDo injected_client
          \<lparr>Method = ''GET'',
           ReqURL = url_String w (u\<lparr>Path := path_Join w (Path u) ''/_tasks''\<rparr>),
           ReqHeader = [], ReqBody = None\<rparr>]"
    by (auto simp: Tasks_defs common_defs NewTasks_def Let_def
        split: sum.splits option.splits if_splits)
  moreover have
    "filter is_HttpDo (snd (LogsQueries_Collect w (NewLogsQueries ns lg injected_client u))) =
       [HttpDo zero_http_Client
          \<lparr>Method = ''POST'',
           ReqURL =
             url_String w (u\<lparr>Path := path_Join w (Path u) ''/elasticsearch-*/_search''\<rparr>),
           ReqHeader = [(''Content-Type'', ''application/json'')], ReqBody = Some jsonStr\<rparr>]"
    by (auto simp: LogsQueries_defs common_defs NewLogsQueries_def Let_def
        split: sum.splits option.splits if_splits)
  ultimately show ?thesis by simp
qed

end
